theory Spec2Isabelle
  imports Main "HOL-Library.Word"
begin

section \<open>Shared types\<close>

text \<open>
  Go's \<^verbatim>\<open>time.Time\<close> is an instant; it is modelled as the number of nanoseconds since
  a fixed epoch, an unbounded integer. \<^verbatim>\<open>time.Duration\<close> is a signed 64-bit count of
  nanoseconds. Every call of \<^verbatim>\<open>time.Now()\<close> in the source becomes a parameter
  \<open>now\<close> of the model.
\<close>

type_synonym Time = int

text \<open>The sentinel errors of \<^verbatim>\<open>internal/common/errors\<close> that the modelled code returns.\<close>

datatype error = ErrNotFound | ErrAlreadyExists | ErrConflict | ErrQueueFull | ErrSyncFailed
  | NilPointerPanic

section \<open>File metadata and vector clocks (package \<^verbatim>\<open>region/metadata\<close>)\<close>

text \<open>
  A Go \<^verbatim>\<open>map[string]uint64\<close> is either \<^verbatim>\<open>nil\<close> (\<open>None\<close>) or a map
  (\<open>Some m\<close>); the counters are 64-bit unsigned words. The \<^verbatim>\<open>int64\<close> fields are
  only stored, never computed with, by the functions modelled here.
\<close>

record FileMetadata =
  ID :: string
  Name :: string
  Path :: string
  Size :: "64 word"
  ContentHash :: string
  MimeType :: string
  Version :: "64 word"
  VectorClock :: "(string \<rightharpoonup> 64 word) option"
  OwnerID :: string
  CreatedAt :: Time
  UpdatedAt :: Time
  CreatedBy :: string
  UpdatedBy :: string
  OriginRegion :: string
  LocalState :: string
  SyncState :: string
  CustomMeta :: "(string \<rightharpoonup> string) option"

datatype ClockRelation = ClockBefore | ClockAfter | ClockEqual | ClockConcurrent

text \<open>Indexing a Go map at a missing key (or indexing a nil map) yields the zero value.\<close>

definition clockAt :: "(string \<rightharpoonup> 64 word) \<Rightarrow> string \<Rightarrow> 64 word" where
  "clockAt m k = (case m k of None \<Rightarrow> 0 | Some v \<Rightarrow> v)"

text \<open>
  \<^verbatim>\<open>FileMetadata.CompareClock\<close>. The loop over \<^verbatim>\<open>allKeys\<close> only ever sets the two
  flags to true, so after the loop \<open>lessThan\<close> holds exactly when some key of
  \<open>allKeys\<close> took the first branch, and \<open>greaterThan\<close> exactly when some key took the
  \<^verbatim>\<open>else if\<close> branch, whatever the iteration order. A Go map has finitely many
  keys; nothing proved below depends on that.
\<close>

definition CompareClock ::
  "'a FileMetadata_scheme \<Rightarrow> (string \<rightharpoonup> 64 word) option \<Rightarrow> ClockRelation" where
  "CompareClock m other =
     (case (VectorClock m, other) of
        (None, None) \<Rightarrow> ClockEqual
      | (None, Some b) \<Rightarrow> ClockBefore
      | (Some a, None) \<Rightarrow> ClockAfter
      | (Some a, Some b) \<Rightarrow>
          (let allKeys = dom a \<union> dom b;
               lessThan = (\<exists>k\<in>allKeys. clockAt a k < clockAt b k);
               greaterThan = (\<exists>k\<in>allKeys. \<not> clockAt a k < clockAt b k \<and> clockAt a k > clockAt b k)
           in if lessThan \<and> greaterThan then ClockConcurrent
              else if lessThan then ClockBefore
              else if greaterThan then ClockAfter
              else ClockEqual))"

section \<open>Global metadata (package \<^verbatim>\<open>coordinator/metadata\<close>)\<close>

record RegionLocation =
  RegionID :: string
  State :: string
  LastSyncAt :: Time

text \<open>\<^verbatim>\<open>GlobalFileMetadata\<close> embeds \<^verbatim>\<open>FileMetadata\<close>: a record extension.\<close>

record GlobalFileMetadata = FileMetadata +
  Locations :: "RegionLocation list"
  Primary :: string
  Replicas :: "64 word"

section \<open>Conflict detection and resolution (package \<^verbatim>\<open>coordinator/conflict\<close>)\<close>

text \<open>
  The two versions of a conflict are pointers in the source; \<^verbatim>\<open>Detect\<close> and
  \<^verbatim>\<open>Resolve\<close> dereference them unconditionally, and the model takes them as the
  records they point to. The \<open>Result\<close> and \<open>Rejected\<close> pointers of a resolution may
  be nil, so they are options.
\<close>

record Conflict =
  ID :: string
  FileID :: string
  LocalVersion :: GlobalFileMetadata
  RemoteVersion :: GlobalFileMetadata
  DetectedAt :: Time
  Status :: string

record Resolution =
  ConflictID :: string
  Strategy :: string
  Result :: "GlobalFileMetadata option"
  Rejected :: "GlobalFileMetadata option"
  ResolvedAt :: Time

record Resolver =
  defaultStrategy :: string

definition StrategyLWW :: string where "StrategyLWW = ''last_writer_wins''"
definition StrategyMerge :: string where "StrategyMerge = ''merge''"
definition StrategyManual :: string where "StrategyManual = ''manual''"
definition StrategyFork :: string where "StrategyFork = ''fork''"

text \<open>
  \<^verbatim>\<open>Resolver.Detect\<close>. The identifier produced by \<^verbatim>\<open>generateConflictID\<close> (a
  formatted clock reading) is the parameter \<open>cid\<close>; the detection time is \<open>now\<close>.
  \<open>None\<close> is the nil result.
\<close>

definition Detect ::
  "Resolver \<Rightarrow> string \<Rightarrow> Time \<Rightarrow> GlobalFileMetadata \<Rightarrow> GlobalFileMetadata \<Rightarrow> Conflict option" where
  "Detect r cid now local remote =
     (let relation = CompareClock local (VectorClock remote)
      in if relation \<noteq> ClockConcurrent then None
         else Some \<lparr> Conflict.ID = cid, FileID = FileMetadata.ID local,
                      LocalVersion = local, RemoteVersion = remote,
                      DetectedAt = now, Status = ''pending'' \<rparr>)"

text \<open>\<^verbatim>\<open>t.After(u)\<close> on instants.\<close>

definition Time_After :: "Time \<Rightarrow> Time \<Rightarrow> bool" where
  "Time_After t u = (u < t)"

text \<open>\<^verbatim>\<open>Resolver.resolveLastWriterWins\<close>: the pair (winner, loser).\<close>

definition resolveLastWriterWins :: "Conflict \<Rightarrow> GlobalFileMetadata \<times> GlobalFileMetadata" where
  "resolveLastWriterWins conflict =
     (if Time_After (UpdatedAt (LocalVersion conflict)) (UpdatedAt (RemoteVersion conflict))
      then (LocalVersion conflict, RemoteVersion conflict)
      else (RemoteVersion conflict, LocalVersion conflict))"

text \<open>\<^verbatim>\<open>Resolver.resolveFork\<close>: a copy of the remote version, renamed.\<close>

definition resolveFork :: "Conflict \<Rightarrow> GlobalFileMetadata" where
  "resolveFork conflict =
     (let forked = RemoteVersion conflict;
          forked = forked\<lparr> Path := Path forked @ ''.conflict'' \<rparr>;
          forked = forked\<lparr> Name := FileMetadata.Name forked @ ''.conflict'' \<rparr>
      in forked)"

text \<open>
  \<^verbatim>\<open>Resolver.Resolve\<close>. The source returns \<^verbatim>\<open>(resolution, nil)\<close> on every path and
  mutates the conflict through its pointer; the model returns the resolution together
  with the conflict as it is afterwards.
\<close>

definition Resolve :: "Resolver \<Rightarrow> Time \<Rightarrow> Conflict \<Rightarrow> string \<Rightarrow> Resolution \<times> Conflict" where
  "Resolve r now conflict strategy0 =
     (let strategy = (if strategy0 = [] then defaultStrategy r else strategy0);
          (result, rejected) =
            (if strategy = StrategyLWW then
               (let (winner, loser) = resolveLastWriterWins conflict in (Some winner, Some loser))
             else if strategy = StrategyFork then
               (Some (resolveFork conflict), None)
             else
               (let (winner, loser) = resolveLastWriterWins conflict in (Some winner, Some loser)));
          resolution = \<lparr> ConflictID = Conflict.ID conflict, Strategy = strategy,
                         Result = result, Rejected = rejected, ResolvedAt = now \<rparr>
      in (resolution, conflict\<lparr> Status := ''resolved'' \<rparr>))"

section \<open>The global metadata manager (\<^verbatim>\<open>EtcdManager\<close>, in-memory store)\<close>

text \<open>
  The manager's \<^verbatim>\<open>config\<close> and \<^verbatim>\<open>logger\<close> fields play no part in its operations;
  its state is the store. Each operation returns the error (\<open>None\<close> for nil)
  together with the manager as it is afterwards. A nil metadata pointer makes
  \<^verbatim>\<open>meta.ID\<close> panic.
\<close>

record EtcdManager =
  store :: "string \<rightharpoonup> GlobalFileMetadata"

definition NewEtcdManager :: EtcdManager where
  "NewEtcdManager = \<lparr> store = Map.empty \<rparr>"

definition Get :: "EtcdManager \<Rightarrow> string \<Rightarrow> error + GlobalFileMetadata" where
  "Get m fileID = (case store m fileID of None \<Rightarrow> Inl ErrNotFound | Some meta \<Rightarrow> Inr meta)"

definition Update :: "EtcdManager \<Rightarrow> GlobalFileMetadata option \<Rightarrow> error option \<times> EtcdManager" where
  "Update m metaPtr =
     (case metaPtr of
        None \<Rightarrow> (Some NilPointerPanic, m)
      | Some meta \<Rightarrow>
          (case store m (FileMetadata.ID meta) of
             None \<Rightarrow> (Some ErrNotFound, m)
           | Some existing \<Rightarrow>
               (let relation = CompareClock existing (VectorClock meta)
                in if relation = ClockConcurrent then (Some ErrConflict, m)
                   else (None, m\<lparr> store := (store m)(FileMetadata.ID meta \<mapsto> meta) \<rparr>))))"

definition Register :: "EtcdManager \<Rightarrow> GlobalFileMetadata option \<Rightarrow> error option \<times> EtcdManager" where
  "Register m metaPtr =
     (case metaPtr of
        None \<Rightarrow> (Some NilPointerPanic, m)
      | Some meta \<Rightarrow>
          (case store m (FileMetadata.ID meta) of
             Some existing \<Rightarrow> (Some ErrAlreadyExists, m)
           | None \<Rightarrow> (None, m\<lparr> store := (store m)(FileMetadata.ID meta \<mapsto> meta) \<rparr>)))"

definition Delete :: "EtcdManager \<Rightarrow> string \<Rightarrow> error option \<times> EtcdManager" where
  "Delete m fileID =
     (case store m fileID of
        None \<Rightarrow> (Some ErrNotFound, m)
      | Some existing \<Rightarrow> (None, m\<lparr> store := (store m)(fileID := None) \<rparr>))"

section \<open>The coordinator's sync engine (package \<^verbatim>\<open>coordinator/sync\<close>)\<close>

text \<open>
  The coordinator's \<^verbatim>\<open>ChangeEvent\<close>. Its \<^verbatim>\<open>Metadata\<close> pointer may be nil. A Go slice
  is a list; the engine never tests a slice against nil, so the nil slice and the empty
  slice are both \<open>[]\<close>.
\<close>

record ChangeEvent =
  ID :: string
  Type :: string
  FileID :: string
  Metadata :: "GlobalFileMetadata option"
  VectorClock :: "(string \<rightharpoonup> 64 word) option"
  Timestamp :: Time
  RegionID :: string

record EngineConfig =
  DefaultStrategy :: string
  BatchSize :: int
  BroadcastTimeout :: int

record RegionState =
  RegionID :: string
  LastEventID :: string
  LastSyncAt :: Time
  PendingEvents :: "ChangeEvent list"

text \<open>
  The engine's \<^verbatim>\<open>metaManager\<close> is the \<^verbatim>\<open>metadata.Manager\<close> interface; the
  repository's one implementation, \<^verbatim>\<open>EtcdManager\<close>, stands for it.
\<close>

record Engine =
  config :: EngineConfig
  metaManager :: EtcdManager
  regions :: "string \<rightharpoonup> RegionState"

definition NewEngine :: "EngineConfig \<Rightarrow> EtcdManager \<Rightarrow> Engine" where
  "NewEngine cfg mm = \<lparr> config = cfg, metaManager = mm, regions = Map.empty \<rparr>"

definition RegisterRegion :: "Time \<Rightarrow> string \<Rightarrow> Engine \<Rightarrow> Engine" where
  "RegisterRegion now regionID e =
     e\<lparr> regions := (regions e)(regionID \<mapsto>
          \<lparr> RegionState.RegionID = regionID, LastEventID = [], LastSyncAt = now,
            PendingEvents = [] \<rparr>) \<rparr>"

definition UnregisterRegion :: "string \<Rightarrow> Engine \<Rightarrow> Engine" where
  "UnregisterRegion regionID e = e\<lparr> regions := (regions e)(regionID := None) \<rparr>"

text \<open>
  \<^verbatim>\<open>Engine.broadcastChange\<close>. The loop visits every entry of the map once and each
  iteration touches only the entry it visits, so the map after the loop is the entrywise
  image of the map before it.
\<close>

definition broadcastChange :: "ChangeEvent \<Rightarrow> Engine \<Rightarrow> Engine" where
  "broadcastChange event e =
     e\<lparr> regions := (\<lambda>regionID.
          case regions e regionID of
            None \<Rightarrow> None
          | Some state \<Rightarrow>
              if regionID = ChangeEvent.RegionID event then Some state
              else Some (state\<lparr> PendingEvents := PendingEvents state @ [event] \<rparr>)) \<rparr>"

text \<open>
  \<^verbatim>\<open>Engine.HandleChange\<close>: the error (\<open>None\<close> for nil) and the engine afterwards.
  An event type other than the three named ones applies nothing to the metadata.
\<close>

definition HandleChange :: "ChangeEvent \<Rightarrow> Engine \<Rightarrow> error option \<times> Engine" where
  "HandleChange event e =
     (let (err, mm) =
            (if Type event = ''CREATE'' then Register (metaManager e) (Metadata event)
             else if Type event = ''UPDATE'' then Update (metaManager e) (Metadata event)
             else if Type event = ''DELETE'' then Delete (metaManager e) (ChangeEvent.FileID event)
             else (None, metaManager e));
          e1 = e\<lparr> metaManager := mm \<rparr>
      in case err of
           Some x \<Rightarrow> (Some x, e1)
         | None \<Rightarrow>
             (None, if DefaultStrategy (config e1) = ''eager'' then broadcastChange event e1 else e1))"

text \<open>
  \<^verbatim>\<open>Engine.GetPendingChanges\<close>: the returned events (the error is nil on every path)
  and the engine afterwards.
\<close>

definition GetPendingChanges :: "Time \<Rightarrow> string \<Rightarrow> Engine \<Rightarrow> ChangeEvent list \<times> Engine" where
  "GetPendingChanges now regionID e =
     (case regions e regionID of
        None \<Rightarrow> ([], e)
      | Some state \<Rightarrow>
          (let events = PendingEvents state;
               state = state\<lparr> PendingEvents := [] \<rparr>;
               state = state\<lparr> RegionState.LastSyncAt := now \<rparr>
           in (events, e\<lparr> regions := (regions e)(regionID \<mapsto> state) \<rparr>)))"

section \<open>The region's change queue (package \<^verbatim>\<open>region/sync\<close>, \<^verbatim>\<open>queue.go\<close>)\<close>

text \<open>
  The queue stores event pointers and never looks inside them, so the model is
  polymorphic in the element. \<^verbatim>\<open>maxSize\<close> is a Go \<^verbatim>\<open>int\<close> that is only compared
  with \<^verbatim>\<open>len(q.items)\<close>. The mutex is not modelled: each operation is one atomic step.
\<close>

record 'e ChangeQueue =
  items :: "'e list"
  maxSize :: int

definition NewChangeQueue :: "int \<Rightarrow> 'e ChangeQueue" where
  "NewChangeQueue n = \<lparr> items = [], maxSize = n \<rparr>"

text \<open>\<^verbatim>\<open>ChangeQueue.Push\<close>: the error (\<open>None\<close> for nil) and the queue afterwards.\<close>

definition Push :: "'e ChangeQueue \<Rightarrow> 'e \<Rightarrow> error option \<times> 'e ChangeQueue" where
  "Push q event =
     (if int (length (items q)) \<ge> maxSize q then (Some ErrQueueFull, q)
      else (None, q\<lparr> items := items q @ [event] \<rparr>))"

text \<open>\<^verbatim>\<open>ChangeQueue.Pop\<close>: the event (\<open>None\<close> for the nil of an empty queue).\<close>

definition Pop :: "'e ChangeQueue \<Rightarrow> 'e option \<times> 'e ChangeQueue" where
  "Pop q =
     (if length (items q) = 0 then (None, q)
      else (Some (hd (items q)), q\<lparr> items := tl (items q) \<rparr>))"

definition Len :: "'e ChangeQueue \<Rightarrow> nat" where
  "Len q = length (items q)"

definition Clear :: "'e ChangeQueue \<Rightarrow> 'e ChangeQueue" where
  "Clear q = q\<lparr> items := [] \<rparr>"

text \<open>Pushing a list of events one after the other, keeping each call's error.\<close>

fun PushAll :: "'e ChangeQueue \<Rightarrow> 'e list \<Rightarrow> error option list \<times> 'e ChangeQueue" where
  "PushAll q [] = ([], q)"
| "PushAll q (x # xs) =
     (let (err, q1) = Push q x; (errs, q2) = PushAll q1 xs in (err # errs, q2))"

section \<open>The region's sync agent (\<^verbatim>\<open>agent.go\<close>)\<close>

text \<open>
  The region-side \<^verbatim>\<open>ChangeEvent\<close> (it carries the \<^verbatim>\<open>Attempts\<close> counter, a Go
  \<^verbatim>\<open>int\<close>: a 64-bit word read as signed, so that \<^verbatim>\<open>Attempts++\<close> wraps).
\<close>

record ChangeEvent_region =
  ID :: string
  Type :: string
  FileID :: string
  Metadata :: "FileMetadata option"
  VectorClock :: "(string \<rightharpoonup> 64 word) option"
  Timestamp :: Time
  RegionID :: string
  Attempts :: "64 word"

record AgentConfig =
  RegionID :: string
  Mode :: string
  BatchSize :: int
  BatchInterval :: int
  RetryInterval :: int
  MaxRetries :: "64 word"

text \<open>
  What the agent writes to its logger is what it reports; the log is part of the state.
  An entry keeps the level, the message and the \<^verbatim>\<open>event_id\<close> field.
\<close>

datatype LogLevel = LogDebug | LogInfo | LogWarn | LogError

datatype LogEntry = LogEntry LogLevel string string

record Agent =
  config :: AgentConfig
  queue :: "ChangeEvent_region ChangeQueue"
  logger :: "LogEntry list"

definition NewAgent :: "AgentConfig \<Rightarrow> Agent" where
  "NewAgent cfg = \<lparr> config = cfg, queue = NewChangeQueue 10000, logger = [] \<rparr>"

text \<open>
  \<^verbatim>\<open>Agent.handleSyncError\<close>. The event is mutated through its pointer; the model
  returns the event as it is afterwards and the agent afterwards. The error that
  \<^verbatim>\<open>Push\<close> returns is discarded, as in the source (\<^verbatim>\<open>_ = a.queue.Push(event)\<close>).
\<close>

definition handleSyncError ::
  "Agent \<Rightarrow> ChangeEvent_region \<Rightarrow> error \<Rightarrow> ChangeEvent_region \<times> Agent" where
  "handleSyncError a event0 err =
     (let event = event0\<lparr> Attempts := Attempts event0 + 1 \<rparr>;
          a1 = a\<lparr> logger := logger a @ [LogEntry LogWarn ''sync failed'' (ChangeEvent_region.ID event)] \<rparr>
      in if sint (Attempts event) < sint (MaxRetries (Agent.config a1)) then
           (let (pushErr, q) = Push (queue a1) event in (event, a1\<lparr> queue := q \<rparr>))
         else
           (event, a1\<lparr> logger := logger a1 @
              [LogEntry LogError ''max retries exceeded, dropping event''
                 (ChangeEvent_region.ID event)] \<rparr>))"

section \<open>The region registry (package \<^verbatim>\<open>coordinator/registry\<close>)\<close>

text \<open>
  The \<^verbatim>\<open>float64\<close> fields are stored and copied, never computed with: they are kept as
  their 64-bit patterns.
\<close>

record GeoLocation =
  Latitude :: "64 word"
  Longitude :: "64 word"
  City :: string
  Country :: string

record Capacity =
  TotalBytes :: "64 word"
  UsedBytes :: "64 word"
  FreeBytes :: "64 word"

record RegionStatus =
  State :: string
  SyncLag :: "64 word"
  LoadLevel :: "64 word"
  LastCheckAt :: Time

record RegionInfo =
  ID :: string
  Name :: string
  Endpoint :: string
  Location :: GeoLocation
  Capacity :: Capacity
  Status :: RegionStatus
  JoinedAt :: Time
  LastSeenAt :: Time

record Registry =
  regions :: "string \<rightharpoonup> RegionInfo"

definition NewRegistry :: Registry where
  "NewRegistry = \<lparr> Registry.regions = Map.empty \<rparr>"

text \<open>
  \<^verbatim>\<open>t.Sub(u)\<close>: the difference as a \<^verbatim>\<open>Duration\<close>, which saturates at the largest and
  smallest 64-bit values.
\<close>

definition maxDuration :: int where "maxDuration = 2 ^ 63 - 1"
definition minDuration :: int where "minDuration = - (2 ^ 63)"

definition Time_Sub :: "Time \<Rightarrow> Time \<Rightarrow> int" where
  "Time_Sub t u =
     (let d = t - u
      in if d > maxDuration then maxDuration else if d < minDuration then minDuration else d)"

definition Second :: int where "Second = 1000000000"
definition Minute :: int where "Minute = 60 * Second"

text \<open>
  \<^verbatim>\<open>Registry.Register\<close>, \<^verbatim>\<open>Registry.Heartbeat\<close>: one parameter for each reading of
  the clock, in the order of the source.
\<close>

definition Register_region ::
  "Time \<Rightarrow> Time \<Rightarrow> Time \<Rightarrow> RegionInfo \<Rightarrow> Registry \<Rightarrow> error option \<times> Registry" where
  "Register_region now1 now2 now3 region r =
     (case Registry.regions r (RegionInfo.ID region) of
        Some existing \<Rightarrow> (Some ErrAlreadyExists, r)
      | None \<Rightarrow>
          (let region = region\<lparr> JoinedAt := now1 \<rparr>;
               region = region\<lparr> LastSeenAt := now2 \<rparr>;
               region = region\<lparr> Status := (Status region)\<lparr> RegionStatus.State := ''healthy'' \<rparr> \<rparr>;
               region = region\<lparr> Status := (Status region)\<lparr> LastCheckAt := now3 \<rparr> \<rparr>
           in (None, r\<lparr> Registry.regions := (Registry.regions r)(RegionInfo.ID region \<mapsto> region) \<rparr>)))"

definition Heartbeat ::
  "Time \<Rightarrow> Time \<Rightarrow> string \<Rightarrow> RegionStatus \<Rightarrow> Registry \<Rightarrow> error option \<times> Registry" where
  "Heartbeat now1 now2 regionID status r =
     (case Registry.regions r regionID of
        None \<Rightarrow> (Some ErrNotFound, r)
      | Some region \<Rightarrow>
          (let region = region\<lparr> LastSeenAt := now1 \<rparr>;
               region = region\<lparr> Status := status \<rparr>;
               region = region\<lparr> Status := (Status region)\<lparr> LastCheckAt := now2 \<rparr> \<rparr>
           in (None, r\<lparr> Registry.regions := (Registry.regions r)(regionID \<mapsto> region) \<rparr>)))"

text \<open>The body of the loop of \<^verbatim>\<open>Registry.checkHealth\<close>, for one region.\<close>

definition checkHealthRegion :: "Time \<Rightarrow> RegionInfo \<Rightarrow> RegionInfo" where
  "checkHealthRegion now region =
     (let degradedThreshold = 1 * Minute;
          offlineThreshold = 5 * Minute;
          elapsed = Time_Sub now (LastSeenAt region)
      in if elapsed > offlineThreshold then
           (if RegionStatus.State (Status region) \<noteq> ''offline''
            then region\<lparr> Status := (Status region)\<lparr> RegionStatus.State := ''offline'' \<rparr> \<rparr>
            else region)
         else if elapsed > degradedThreshold then
           (if RegionStatus.State (Status region) = ''healthy''
            then region\<lparr> Status := (Status region)\<lparr> RegionStatus.State := ''degraded'' \<rparr> \<rparr>
            else region)
         else region)"

text \<open>
  \<^verbatim>\<open>Registry.checkHealth\<close>: the loop visits every registered region once, and each
  iteration changes only the region it visits.
\<close>

definition checkHealth :: "Time \<Rightarrow> Registry \<Rightarrow> Registry" where
  "checkHealth now r =
     r\<lparr> Registry.regions := (\<lambda>regionID.
          case Registry.regions r regionID of
            None \<Rightarrow> None
          | Some region \<Rightarrow> Some (checkHealthRegion now region)) \<rparr>"

section \<open>Go zero values, for writing concrete inputs\<close>

definition zeroFileMetadata :: FileMetadata where
  "zeroFileMetadata = \<lparr> FileMetadata.ID = [], Name = [], Path = [], Size = 0, ContentHash = [],
     MimeType = [], Version = 0, VectorClock = None, OwnerID = [], CreatedAt = 0, UpdatedAt = 0,
     CreatedBy = [], UpdatedBy = [], OriginRegion = [], LocalState = [], SyncState = [],
     CustomMeta = None \<rparr>"

definition zeroGlobalFileMetadata :: GlobalFileMetadata where
  "zeroGlobalFileMetadata = \<lparr> FileMetadata.ID = [], Name = [], Path = [], Size = 0, ContentHash = [],
     MimeType = [], Version = 0, VectorClock = None, OwnerID = [], CreatedAt = 0, UpdatedAt = 0,
     CreatedBy = [], UpdatedBy = [], OriginRegion = [], LocalState = [], SyncState = [],
     CustomMeta = None, Locations = [], Primary = [], Replicas = 0 \<rparr>"

definition zeroChangeEvent :: ChangeEvent where
  "zeroChangeEvent = \<lparr> ChangeEvent.ID = [], Type = [], FileID = [], Metadata = None,
     VectorClock = None, Timestamp = 0, RegionID = [] \<rparr>"

definition zeroChangeEvent_region :: ChangeEvent_region where
  "zeroChangeEvent_region = \<lparr> ChangeEvent_region.ID = [], Type = [], FileID = [],
     Metadata = None, VectorClock = None, Timestamp = 0, RegionID = [], Attempts = 0 \<rparr>"

definition zeroRegionInfo :: RegionInfo where
  "zeroRegionInfo = \<lparr> RegionInfo.ID = [], Name = [], Endpoint = [],
     Location = \<lparr> Latitude = 0, Longitude = 0, City = [], Country = [] \<rparr>,
     Capacity = \<lparr> TotalBytes = 0, UsedBytes = 0, FreeBytes = 0 \<rparr>,
     Status = \<lparr> RegionStatus.State = [], SyncLag = 0, LoadLevel = 0, LastCheckAt = 0 \<rparr>,
     JoinedAt = 0, LastSeenAt = 0 \<rparr>"

section \<open>Concrete inputs\<close>

definition lwwResolver :: Resolver where
  "lwwResolver = \<lparr> defaultStrategy = StrategyLWW \<rparr>"

text \<open>Two versions of one file whose \<^verbatim>\<open>UpdatedAt\<close> instants are the same.\<close>

definition tieLocal :: GlobalFileMetadata where
  "tieLocal = zeroGlobalFileMetadata\<lparr> FileMetadata.ID := ''file-1'',
     FileMetadata.Name := ''local.txt'', UpdatedAt := 1700000000000000000 \<rparr>"

definition tieRemote :: GlobalFileMetadata where
  "tieRemote = zeroGlobalFileMetadata\<lparr> FileMetadata.ID := ''file-1'',
     FileMetadata.Name := ''remote.txt'', UpdatedAt := 1700000000000000000 \<rparr>"

definition tieConflict :: Conflict where
  "tieConflict = \<lparr> Conflict.ID = ''conflict-1'', FileID = ''file-1'', LocalVersion = tieLocal,
     RemoteVersion = tieRemote, DetectedAt = 1700000000000000000, Status = ''pending'' \<rparr>"

text \<open>The conflict of \<^verbatim>\<open>TestResolver_Resolve_LWW\<close>: the remote version is one hour newer.\<close>

definition hourConflict :: Conflict where
  "hourConflict = \<lparr> Conflict.ID = ''conflict-1'', FileID = ''file-1'',
     LocalVersion = zeroGlobalFileMetadata\<lparr> FileMetadata.ID := ''file-1'',
        FileMetadata.Name := ''local.txt'', UpdatedAt := 1700000000000000000 \<rparr>,
     RemoteVersion = zeroGlobalFileMetadata\<lparr> FileMetadata.ID := ''file-1'',
        FileMetadata.Name := ''remote.txt'', UpdatedAt := 1700000000000000000 + 60 * Minute \<rparr>,
     DetectedAt = 1700003600000000001, Status = ''pending'' \<rparr>"

definition manualConflict :: Conflict where
  "manualConflict = \<lparr> Conflict.ID = ''conflict-7'', FileID = ''file-7'',
     LocalVersion = zeroGlobalFileMetadata\<lparr> FileMetadata.ID := ''file-7'',
        FileMetadata.Name := ''mine.txt'', UpdatedAt := 1700000000000000000 \<rparr>,
     RemoteVersion = zeroGlobalFileMetadata\<lparr> FileMetadata.ID := ''file-7'',
        FileMetadata.Name := ''theirs.txt'', UpdatedAt := 1700003600000000000 \<rparr>,
     DetectedAt = 1700003600000000001, Status = ''pending'' \<rparr>"

text \<open>The clocks of \<^verbatim>\<open>TestResolver_Detect\<close>.\<close>

definition clockA2B1 :: GlobalFileMetadata where
  "clockA2B1 = zeroGlobalFileMetadata\<lparr> FileMetadata.ID := ''file-1'',
     FileMetadata.VectorClock := Some [''a'' \<mapsto> 2, ''b'' \<mapsto> 1] \<rparr>"

definition clockA1B2 :: GlobalFileMetadata where
  "clockA1B2 = zeroGlobalFileMetadata\<lparr> FileMetadata.ID := ''file-1'',
     FileMetadata.VectorClock := Some [''a'' \<mapsto> 1, ''b'' \<mapsto> 2] \<rparr>"

definition clockA1B1 :: GlobalFileMetadata where
  "clockA1B1 = zeroGlobalFileMetadata\<lparr> FileMetadata.ID := ''file-1'',
     ContentHash := ''0a'', FileMetadata.VectorClock := Some [''a'' \<mapsto> 1, ''b'' \<mapsto> 1] \<rparr>"

definition clockA2B2 :: GlobalFileMetadata where
  "clockA2B2 = zeroGlobalFileMetadata\<lparr> FileMetadata.ID := ''file-1'',
     ContentHash := ''0b'', FileMetadata.VectorClock := Some [''a'' \<mapsto> 2, ''b'' \<mapsto> 2] \<rparr>"

definition storeWithFile1 :: EtcdManager where
  "storeWithFile1 = \<lparr> store = [''file-1'' \<mapsto> clockA2B1] \<rparr>"

text \<open>An eager engine with the regions A and B, and a CREATE event that comes from A.\<close>

definition eagerConfig :: EngineConfig where
  "eagerConfig = \<lparr> DefaultStrategy = ''eager'', BatchSize = 100, BroadcastTimeout = 10 * Second \<rparr>"

definition engineAB :: Engine where
  "engineAB = RegisterRegion 1700000000000000002 ''B''
     (RegisterRegion 1700000000000000001 ''A'' (NewEngine eagerConfig NewEtcdManager))"

definition createFromA :: ChangeEvent where
  "createFromA = zeroChangeEvent\<lparr> ChangeEvent.ID := ''event-1'', ChangeEvent.Type := ''CREATE'',
     ChangeEvent.FileID := ''file-1'', ChangeEvent.Metadata := Some clockA2B1,
     ChangeEvent.RegionID := ''A'' \<rparr>"

text \<open>The same engine on a store that holds \<open>file-1\<close>, and an UPDATE of it that comes from A.\<close>

definition engineABFile1 :: Engine where
  "engineABFile1 = RegisterRegion 1700000000000000002 ''B''
     (RegisterRegion 1700000000000000001 ''A'' (NewEngine eagerConfig storeWithFile1))"

definition updateFromA :: ChangeEvent where
  "updateFromA = zeroChangeEvent\<lparr> ChangeEvent.ID := ''event-2'', ChangeEvent.Type := ''UPDATE'',
     ChangeEvent.FileID := ''file-1'', ChangeEvent.Metadata := Some clockA2B2,
     ChangeEvent.RegionID := ''A'' \<rparr>"

definition engineBPending :: Engine where
  "engineBPending = \<lparr> Engine.config = eagerConfig, metaManager = NewEtcdManager,
     Engine.regions = [''B'' \<mapsto> \<lparr> RegionState.RegionID = ''B'', LastEventID = [],
        LastSyncAt = 1700000000000000002, PendingEvents = [createFromA] \<rparr>] \<rparr>"

text \<open>
  An agent as \<^verbatim>\<open>NewAgent\<close> makes it, with three retries allowed, whose queue holds
  its 10000 events; and an event that has not been retried yet.
\<close>

definition retryConfig :: AgentConfig where
  "retryConfig = \<lparr> AgentConfig.RegionID = ''region-a'', Mode = ''push'', BatchSize = 100,
     BatchInterval = 5 * Second, RetryInterval = 1 * Second, MaxRetries = 3 \<rparr>"

definition fullAgent :: Agent where
  "fullAgent = (NewAgent retryConfig)\<lparr> queue :=
     (queue (NewAgent retryConfig))\<lparr> items :=
        replicate 10000 (zeroChangeEvent_region\<lparr> ChangeEvent_region.ID := ''queued'' \<rparr>) \<rparr> \<rparr>"

definition failedEvent :: ChangeEvent_region where
  "failedEvent = zeroChangeEvent_region\<lparr> ChangeEvent_region.ID := ''event-1'',
     ChangeEvent_region.FileID := ''file-1'' \<rparr>"

text \<open>A healthy region and a registry that holds it.\<close>

definition healthyRegion :: RegionInfo where
  "healthyRegion = zeroRegionInfo\<lparr> RegionInfo.ID := ''region-a'',
     Status := \<lparr> RegionStatus.State = ''healthy'', SyncLag = 0, LoadLevel = 0,
                 LastCheckAt = 1700000000000000000 \<rparr>,
     LastSeenAt := 1700000000000000000 \<rparr>"

definition registryA :: Registry where
  "registryA = \<lparr> Registry.regions = [''region-a'' \<mapsto> healthyRegion] \<rparr>"

section \<open>Vector clocks\<close>

lemma clockAt_less_dom: "clockAt a k < clockAt b k \<Longrightarrow> k \<in> dom b"
  by (cases "b k") (simp_all add: clockAt_def dom_def)

lemma lessThan_all_keys:
  "(\<exists>k\<in>dom a \<union> dom b. clockAt a k < clockAt b k) \<longleftrightarrow> (\<exists>k. clockAt a k < clockAt b k)"
  using clockAt_less_dom by blast

lemma greaterThan_all_keys:
  "(\<exists>k\<in>dom a \<union> dom b. \<not> clockAt a k < clockAt b k \<and> clockAt b k < clockAt a k)
     \<longleftrightarrow> (\<exists>k. clockAt b k < clockAt a k)"
proof
  assume "\<exists>k. clockAt b k < clockAt a k"
  then obtain k where k: "clockAt b k < clockAt a k" ..
  then have "k \<in> dom a \<union> dom b" using clockAt_less_dom by blast
  moreover from k have "\<not> clockAt a k < clockAt b k" by simp
  ultimately show "\<exists>k\<in>dom a \<union> dom b. \<not> clockAt a k < clockAt b k \<and> clockAt b k < clockAt a k"
    using k by blast
qed blast

text \<open>
  Between two non-nil clocks the result is decided by whether some counter is smaller and
  whether some counter is larger, a missing key counting as 0.
\<close>

lemma CompareClock_Some:
  assumes "FileMetadata.VectorClock m = Some a"
  shows "CompareClock m (Some b) =
     (if (\<exists>k. clockAt a k < clockAt b k) \<and> (\<exists>k. clockAt b k < clockAt a k) then ClockConcurrent
      else if (\<exists>k. clockAt a k < clockAt b k) then ClockBefore
      else if (\<exists>k. clockAt b k < clockAt a k) then ClockAfter
      else ClockEqual)"
  using assms unfolding CompareClock_def Let_def
  by (simp only: lessThan_all_keys greaterThan_all_keys prod.case option.case)

text \<open>
  C10. For all vector clocks A and B, nil clocks included: A compared with B is Before
  exactly when B compared with A is After, and the other way round; it is Equal exactly
  when B compared with A is Equal, and Concurrent exactly when B compared with A is
  Concurrent.
\<close>

theorem CompareClock_inverse:
  "(CompareClock m1 (FileMetadata.VectorClock m2) = ClockBefore
      \<longleftrightarrow> CompareClock m2 (FileMetadata.VectorClock m1) = ClockAfter) \<and>
   (CompareClock m1 (FileMetadata.VectorClock m2) = ClockAfter
      \<longleftrightarrow> CompareClock m2 (FileMetadata.VectorClock m1) = ClockBefore) \<and>
   (CompareClock m1 (FileMetadata.VectorClock m2) = ClockEqual
      \<longleftrightarrow> CompareClock m2 (FileMetadata.VectorClock m1) = ClockEqual) \<and>
   (CompareClock m1 (FileMetadata.VectorClock m2) = ClockConcurrent
      \<longleftrightarrow> CompareClock m2 (FileMetadata.VectorClock m1) = ClockConcurrent)"
proof (cases "FileMetadata.VectorClock m1")
  case None
  then show ?thesis
    by (cases "FileMetadata.VectorClock m2") (simp_all add: CompareClock_def)
next
  case m1: (Some a)
  show ?thesis
  proof (cases "FileMetadata.VectorClock m2")
    case None
    with m1 show ?thesis by (simp add: CompareClock_def)
  next
    case m2: (Some b)
    note ab = CompareClock_Some [OF m1, of b]
    note ba = CompareClock_Some [OF m2, of a]
    show ?thesis unfolding m1 m2 ab ba by auto
  qed
qed

text \<open>
  C10 at the clocks \<open>{a:1, b:1}\<close> and \<open>{a:2, b:2}\<close>: the first is Before the second,
  so the second is After the first; and at a nil clock against an empty one.
\<close>

theorem CompareClock_inverse_witness:
  "CompareClock clockA1B1 (FileMetadata.VectorClock clockA2B2) = ClockBefore \<and>
   CompareClock clockA2B2 (FileMetadata.VectorClock clockA1B1) = ClockAfter \<and>
   CompareClock zeroFileMetadata (FileMetadata.VectorClock
      (zeroFileMetadata\<lparr> FileMetadata.VectorClock := Some Map.empty \<rparr>)) = ClockBefore \<and>
   CompareClock (zeroFileMetadata\<lparr> FileMetadata.VectorClock := Some Map.empty \<rparr>)
      (FileMetadata.VectorClock zeroFileMetadata) = ClockAfter"
proof -
  have b: "CompareClock clockA1B1 (FileMetadata.VectorClock clockA2B2) = ClockBefore"
    by (simp add: CompareClock_def clockA1B1_def clockA2B2_def zeroGlobalFileMetadata_def
        clockAt_def)
  have n: "CompareClock zeroFileMetadata (FileMetadata.VectorClock
      (zeroFileMetadata\<lparr> FileMetadata.VectorClock := Some Map.empty \<rparr>)) = ClockBefore"
    by (simp add: CompareClock_def zeroFileMetadata_def)
  from b n CompareClock_inverse [of clockA1B1 clockA2B2]
    CompareClock_inverse [of zeroFileMetadata
      "zeroFileMetadata\<lparr> FileMetadata.VectorClock := Some Map.empty \<rparr>"]
  show ?thesis by blast
qed

section \<open>Conflict detection\<close>

text \<open>
  C3. For every pair of versions, \<^verbatim>\<open>Detect(local, remote)\<close> returns a conflict exactly
  when comparing local's clock with remote's clock gives Concurrent; the conflict is then
  new, pending, and pairs the two versions. For Before, After and Equal it returns none,
  whatever the other fields of the two versions are.
\<close>

theorem Detect_iff_Concurrent:
  "(Detect r cid now local remote \<noteq> None
      \<longleftrightarrow> CompareClock local (FileMetadata.VectorClock remote) = ClockConcurrent) \<and>
   (CompareClock local (FileMetadata.VectorClock remote) = ClockConcurrent \<longrightarrow>
      Detect r cid now local remote =
        Some \<lparr> Conflict.ID = cid, FileID = FileMetadata.ID local, LocalVersion = local,
               RemoteVersion = remote, DetectedAt = now, Status = ''pending'' \<rparr>) \<and>
   (CompareClock local (FileMetadata.VectorClock remote) \<in> {ClockBefore, ClockAfter, ClockEqual}
      \<longrightarrow> Detect r cid now local remote = None)"
  by (auto simp: Detect_def Let_def)

text \<open>
  C3 at the clocks of the repository's test: \<open>{a:2, b:1}\<close> against \<open>{a:1, b:2}\<close> is a
  conflict; \<open>{a:1, b:1}\<close> against \<open>{a:2, b:2}\<close> is none, although the content hashes
  differ.
\<close>

theorem Detect_iff_Concurrent_witness:
  "CompareClock clockA2B1 (FileMetadata.VectorClock clockA1B2) = ClockConcurrent \<and>
   Detect lwwResolver ''conflict-1'' 1700000000000000000 clockA2B1 clockA1B2 =
     Some \<lparr> Conflict.ID = ''conflict-1'', FileID = ''file-1'', LocalVersion = clockA2B1,
            RemoteVersion = clockA1B2, DetectedAt = 1700000000000000000, Status = ''pending'' \<rparr> \<and>
   CompareClock clockA1B1 (FileMetadata.VectorClock clockA2B2) = ClockBefore \<and>
   ContentHash clockA1B1 \<noteq> ContentHash clockA2B2 \<and>
   Detect lwwResolver ''conflict-2'' 1700000000000000000 clockA1B1 clockA2B2 = None"
proof -
  have c: "CompareClock clockA2B1 (FileMetadata.VectorClock clockA1B2) = ClockConcurrent"
    by (simp add: CompareClock_def clockA2B1_def clockA1B2_def zeroGlobalFileMetadata_def
        clockAt_def)
  have b: "CompareClock clockA1B1 (FileMetadata.VectorClock clockA2B2) = ClockBefore"
    by (simp add: CompareClock_def clockA1B1_def clockA2B2_def zeroGlobalFileMetadata_def
        clockAt_def)
  have i: "FileMetadata.ID clockA2B1 = ''file-1''"
    by (simp add: clockA2B1_def zeroGlobalFileMetadata_def)
  have h: "ContentHash clockA1B1 \<noteq> ContentHash clockA2B2"
    by (simp add: clockA1B1_def clockA2B2_def zeroGlobalFileMetadata_def)
  from Detect_iff_Concurrent [of lwwResolver "''conflict-1''" 1700000000000000000 clockA2B1 clockA1B2] c i
  have 1: "Detect lwwResolver ''conflict-1'' 1700000000000000000 clockA2B1 clockA1B2 =
     Some \<lparr> Conflict.ID = ''conflict-1'', FileID = ''file-1'', LocalVersion = clockA2B1,
            RemoteVersion = clockA1B2, DetectedAt = 1700000000000000000, Status = ''pending'' \<rparr>"
    by simp
  from Detect_iff_Concurrent [of lwwResolver "''conflict-2''" 1700000000000000000 clockA1B1 clockA2B2] b
  have 2: "Detect lwwResolver ''conflict-2'' 1700000000000000000 clockA1B1 clockA2B2 = None"
    by simp
  from c 1 b h 2 show ?thesis by blast
qed

section \<open>Conflict resolution\<close>

text \<open>
  Every strategy other than the empty one and \<^verbatim>\<open>fork\<close> goes through
  \<^verbatim>\<open>resolveLastWriterWins\<close> and marks the conflict resolved.
\<close>

lemma Resolve_not_fork:
  "strategy \<noteq> [] \<Longrightarrow> strategy \<noteq> StrategyFork \<Longrightarrow>
   Resolve r now c strategy =
     (\<lparr> ConflictID = Conflict.ID c, Strategy = strategy,
        Result = Some (fst (resolveLastWriterWins c)),
        Rejected = Some (snd (resolveLastWriterWins c)), ResolvedAt = now \<rparr>,
      c\<lparr> Conflict.Status := ''resolved'' \<rparr>)"
  by (simp add: Resolve_def Let_def split: prod.splits)

text \<open>
  Against C1 as it is stated: at two versions with the same \<^verbatim>\<open>UpdatedAt\<close>, the
  result of the last-writer-wins resolution is the remote version, not the local one.
\<close>

theorem Resolve_LWW_tie_counterexample:
  "UpdatedAt (LocalVersion tieConflict) = UpdatedAt (RemoteVersion tieConflict) \<and>
   Result (fst (Resolve lwwResolver 1700000000000000001 tieConflict StrategyLWW))
     = Some (RemoteVersion tieConflict) \<and>
   Result (fst (Resolve lwwResolver 1700000000000000001 tieConflict StrategyLWW))
     \<noteq> Some (LocalVersion tieConflict)"
  by (simp add: Resolve_not_fork StrategyLWW_def StrategyFork_def resolveLastWriterWins_def
      Time_After_def tieConflict_def tieLocal_def tieRemote_def zeroGlobalFileMetadata_def)

text \<open>
  C1, amended. For every conflict, \<^verbatim>\<open>Resolve\<close> with the last-writer-wins strategy
  returns the version with the later \<^verbatim>\<open>UpdatedAt\<close> as the result and the other version
  as rejected; when the two \<^verbatim>\<open>UpdatedAt\<close> are exactly equal the remote version (the
  second operand) is the result and the local version is rejected; afterwards the
  conflict's status is resolved, and nothing else of the conflict has changed.
\<close>

theorem Resolve_LWW_later_wins:
  "(UpdatedAt (RemoteVersion c) < UpdatedAt (LocalVersion c) \<longrightarrow>
      Result (fst (Resolve r now c StrategyLWW)) = Some (LocalVersion c) \<and>
      Rejected (fst (Resolve r now c StrategyLWW)) = Some (RemoteVersion c)) \<and>
   (UpdatedAt (LocalVersion c) < UpdatedAt (RemoteVersion c) \<longrightarrow>
      Result (fst (Resolve r now c StrategyLWW)) = Some (RemoteVersion c) \<and>
      Rejected (fst (Resolve r now c StrategyLWW)) = Some (LocalVersion c)) \<and>
   (UpdatedAt (LocalVersion c) = UpdatedAt (RemoteVersion c) \<longrightarrow>
      Result (fst (Resolve r now c StrategyLWW)) = Some (RemoteVersion c) \<and>
      Rejected (fst (Resolve r now c StrategyLWW)) = Some (LocalVersion c)) \<and>
   snd (Resolve r now c StrategyLWW) = c\<lparr> Conflict.Status := ''resolved'' \<rparr> \<and>
   Conflict.Status (snd (Resolve r now c StrategyLWW)) = ''resolved''"
  by (simp add: Resolve_not_fork StrategyLWW_def StrategyFork_def resolveLastWriterWins_def
      Time_After_def)

text \<open>
  C1, amended, at the conflict of the repository's test (remote one hour newer), and at
  the tie.
\<close>

theorem Resolve_LWW_later_wins_witness:
  "UpdatedAt (LocalVersion hourConflict) < UpdatedAt (RemoteVersion hourConflict) \<and>
   Result (fst (Resolve lwwResolver 1700003600000000002 hourConflict StrategyLWW))
     = Some (RemoteVersion hourConflict) \<and>
   Rejected (fst (Resolve lwwResolver 1700003600000000002 hourConflict StrategyLWW))
     = Some (LocalVersion hourConflict) \<and>
   Conflict.Status (snd (Resolve lwwResolver 1700003600000000002 hourConflict StrategyLWW))
     = ''resolved'' \<and>
   UpdatedAt (LocalVersion tieConflict) = UpdatedAt (RemoteVersion tieConflict) \<and>
   Result (fst (Resolve lwwResolver 1700000000000000001 tieConflict StrategyLWW))
     = Some tieRemote"
proof -
  have h: "UpdatedAt (LocalVersion hourConflict) < UpdatedAt (RemoteVersion hourConflict)"
    by (simp add: hourConflict_def zeroGlobalFileMetadata_def Minute_def Second_def)
  have t: "UpdatedAt (LocalVersion tieConflict) = UpdatedAt (RemoteVersion tieConflict)"
    by (simp add: tieConflict_def tieLocal_def tieRemote_def zeroGlobalFileMetadata_def)
  have r: "RemoteVersion tieConflict = tieRemote"
    by (simp add: tieConflict_def)
  from h t r Resolve_LWW_later_wins [of hourConflict lwwResolver 1700003600000000002]
    Resolve_LWW_later_wins [of tieConflict lwwResolver 1700000000000000001]
  show ?thesis by simp
qed

text \<open>
  C2 says that \<^verbatim>\<open>Resolve\<close> with the manual strategy gives no automatic result and
  marks the conflict escalated. The code at a pending conflict whose remote version is
  newer: the manual strategy falls into the default branch of the switch, the remote
  version is returned as the result, the local one as rejected, and the status is
  resolved.
\<close>

theorem Resolve_manual_resolves_by_LWW:
  "Conflict.Status manualConflict = ''pending'' \<and>
   Result (fst (Resolve lwwResolver 1700003600000000002 manualConflict StrategyManual))
     = Some (RemoteVersion manualConflict) \<and>
   Rejected (fst (Resolve lwwResolver 1700003600000000002 manualConflict StrategyManual))
     = Some (LocalVersion manualConflict) \<and>
   Conflict.Status (snd (Resolve lwwResolver 1700003600000000002 manualConflict StrategyManual))
     = ''resolved'' \<and>
   Conflict.Status (snd (Resolve lwwResolver 1700003600000000002 manualConflict StrategyManual))
     \<noteq> ''escalated''"
  by (simp add: Resolve_not_fork StrategyManual_def StrategyFork_def resolveLastWriterWins_def
      Time_After_def manualConflict_def zeroGlobalFileMetadata_def)

section \<open>The global metadata manager\<close>

text \<open>
  C4. For a file that is in the store, an \<^verbatim>\<open>Update\<close> whose clock is Concurrent with the
  stored clock fails with the conflict error and leaves the manager as it was; an
  \<^verbatim>\<open>Update\<close> for a file that is not in the store fails with the not-found error and
  leaves the manager as it was.
\<close>

theorem Update_rejects_concurrent_and_absent:
  "(store m (FileMetadata.ID meta) = Some existing \<and>
    CompareClock existing (FileMetadata.VectorClock meta) = ClockConcurrent \<longrightarrow>
      Update m (Some meta) = (Some ErrConflict, m)) \<and>
   (store m (FileMetadata.ID meta) = None \<longrightarrow>
      Update m (Some meta) = (Some ErrNotFound, m))"
  by (simp add: Update_def Let_def)

text \<open>
  C4 at a store that holds \<open>file-1\<close> with clock \<open>{a:2, b:1}\<close>: an update of \<open>file-1\<close>
  with clock \<open>{a:1, b:2}\<close> is a conflict, an update of \<open>file-9\<close> is not found, and the
  stored version is the same after both.
\<close>

theorem Update_rejects_concurrent_and_absent_witness:
  "store storeWithFile1 (FileMetadata.ID clockA1B2) = Some clockA2B1 \<and>
   CompareClock clockA2B1 (FileMetadata.VectorClock clockA1B2) = ClockConcurrent \<and>
   Update storeWithFile1 (Some clockA1B2) = (Some ErrConflict, storeWithFile1) \<and>
   store storeWithFile1 (FileMetadata.ID (clockA1B2\<lparr> FileMetadata.ID := ''file-9'' \<rparr>)) = None \<and>
   Update storeWithFile1 (Some (clockA1B2\<lparr> FileMetadata.ID := ''file-9'' \<rparr>))
     = (Some ErrNotFound, storeWithFile1)"
proof -
  have s: "store storeWithFile1 (FileMetadata.ID clockA1B2) = Some clockA2B1"
    by (simp add: storeWithFile1_def clockA1B2_def zeroGlobalFileMetadata_def)
  have c: "CompareClock clockA2B1 (FileMetadata.VectorClock clockA1B2) = ClockConcurrent"
    by (simp add: CompareClock_def clockA2B1_def clockA1B2_def zeroGlobalFileMetadata_def
        clockAt_def)
  have n: "store storeWithFile1 (FileMetadata.ID (clockA1B2\<lparr> FileMetadata.ID := ''file-9'' \<rparr>)) = None"
    by (simp add: storeWithFile1_def)
  from s c n
    Update_rejects_concurrent_and_absent [of storeWithFile1 clockA1B2 clockA2B1]
    Update_rejects_concurrent_and_absent
      [of storeWithFile1 "clockA1B2\<lparr> FileMetadata.ID := ''file-9'' \<rparr>" clockA2B1]
  show ?thesis by simp
qed

section \<open>The sync engine\<close>

lemma broadcastChange_regions:
  "Engine.regions (broadcastChange ev e) rid =
     (case Engine.regions e rid of
        None \<Rightarrow> None
      | Some st \<Rightarrow>
          if rid = ChangeEvent.RegionID ev then Some st
          else Some (st\<lparr> PendingEvents := PendingEvents st @ [ev] \<rparr>))"
  by (simp add: broadcastChange_def)

text \<open>
  When the metadata application of the switch returns no error and leaves the manager
  \<open>mm'\<close>, \<^verbatim>\<open>HandleChange\<close> returns no error, and the engine afterwards is the engine
  with that manager, broadcast to if the strategy is eager.
\<close>

lemma HandleChange_applied:
  assumes "ChangeEvent.Type ev = ''CREATE'' \<longrightarrow> Register (metaManager e) (ChangeEvent.Metadata ev) = (None, mm')"
      and "ChangeEvent.Type ev = ''UPDATE'' \<longrightarrow> Update (metaManager e) (ChangeEvent.Metadata ev) = (None, mm')"
      and "ChangeEvent.Type ev = ''DELETE'' \<longrightarrow> Delete (metaManager e) (ChangeEvent.FileID ev) = (None, mm')"
      and "ChangeEvent.Type ev \<noteq> ''CREATE'' \<and> ChangeEvent.Type ev \<noteq> ''UPDATE'' \<and> ChangeEvent.Type ev \<noteq> ''DELETE''
             \<longrightarrow> mm' = metaManager e"
  shows "HandleChange ev e =
           (None, if DefaultStrategy (Engine.config e) = ''eager''
                  then broadcastChange ev (e\<lparr> metaManager := mm' \<rparr>)
                  else e\<lparr> metaManager := mm' \<rparr>)"
proof -
  have "(if ChangeEvent.Type ev = ''CREATE'' then Register (metaManager e) (ChangeEvent.Metadata ev)
         else if ChangeEvent.Type ev = ''UPDATE'' then Update (metaManager e) (ChangeEvent.Metadata ev)
         else if ChangeEvent.Type ev = ''DELETE'' then Delete (metaManager e) (ChangeEvent.FileID ev)
         else (None, metaManager e)) = (None, mm')"
    using assms by auto
  then show ?thesis
    unfolding HandleChange_def by (simp add: Let_def)
qed

text \<open>
  C5. When the strategy is eager and the metadata application of the event succeeds
  (\<^verbatim>\<open>Register\<close> for CREATE, \<^verbatim>\<open>Update\<close> for UPDATE, \<^verbatim>\<open>Delete\<close> for DELETE return no
  error; any other type applies nothing), \<^verbatim>\<open>HandleChange\<close> returns no error, and
  afterwards every registered region other than the event's own has the event appended
  to its pending list, the event's own region is as it was, and no region is added or
  removed. With exactly the regions A and B registered and an event from A, B's pending
  list is the one event and A's is empty.
\<close>

theorem HandleChange_eager_fanout:
  assumes "DefaultStrategy (Engine.config e) = ''eager''"
      and "ChangeEvent.Type ev = ''CREATE'' \<longrightarrow> Register (metaManager e) (ChangeEvent.Metadata ev) = (None, mm')"
      and "ChangeEvent.Type ev = ''UPDATE'' \<longrightarrow> Update (metaManager e) (ChangeEvent.Metadata ev) = (None, mm')"
      and "ChangeEvent.Type ev = ''DELETE'' \<longrightarrow> Delete (metaManager e) (ChangeEvent.FileID ev) = (None, mm')"
      and "ChangeEvent.Type ev \<noteq> ''CREATE'' \<and> ChangeEvent.Type ev \<noteq> ''UPDATE'' \<and> ChangeEvent.Type ev \<noteq> ''DELETE''
             \<longrightarrow> mm' = metaManager e"
  shows "HandleChange ev e = (None, broadcastChange ev (e\<lparr> metaManager := mm' \<rparr>)) \<and>
         (\<forall>rid st. Engine.regions e rid = Some st \<longrightarrow>
            Engine.regions (snd (HandleChange ev e)) rid =
              Some (if rid = ChangeEvent.RegionID ev then st
                    else st\<lparr> PendingEvents := PendingEvents st @ [ev] \<rparr>)) \<and>
         (\<forall>rid. Engine.regions e rid = None \<longrightarrow>
            Engine.regions (snd (HandleChange ev e)) rid = None) \<and>
         (A \<noteq> B \<and> e = RegisterRegion t2 B (RegisterRegion t1 A (NewEngine cfg mm)) \<and>
          ChangeEvent.RegionID ev = A \<longrightarrow>
            dom (Engine.regions (snd (HandleChange ev e))) = {A, B} \<and>
            map_option PendingEvents (Engine.regions (snd (HandleChange ev e)) B) = Some [ev] \<and>
            map_option PendingEvents (Engine.regions (snd (HandleChange ev e)) A) = Some [])"
proof -
  let ?e' = "snd (HandleChange ev e)"
  from HandleChange_applied [OF assms(2-5)] assms(1)
  have H: "HandleChange ev e = (None, broadcastChange ev (e\<lparr> metaManager := mm' \<rparr>))"
    by simp
  have R: "\<And>rid. Engine.regions ?e' rid =
     (case Engine.regions e rid of
        None \<Rightarrow> None
      | Some st \<Rightarrow>
          if rid = ChangeEvent.RegionID ev then Some st
          else Some (st\<lparr> PendingEvents := PendingEvents st @ [ev] \<rparr>))"
    by (simp add: H broadcastChange_regions)
  have 1: "\<forall>rid st. Engine.regions e rid = Some st \<longrightarrow>
            Engine.regions ?e' rid =
              Some (if rid = ChangeEvent.RegionID ev then st
                    else st\<lparr> PendingEvents := PendingEvents st @ [ev] \<rparr>)"
    by (simp add: R)
  have 2: "\<forall>rid. Engine.regions e rid = None \<longrightarrow> Engine.regions ?e' rid = None"
    by (simp add: R)
  have 3: "A \<noteq> B \<and> e = RegisterRegion t2 B (RegisterRegion t1 A (NewEngine cfg mm)) \<and>
          ChangeEvent.RegionID ev = A \<longrightarrow>
            dom (Engine.regions ?e') = {A, B} \<and>
            map_option PendingEvents (Engine.regions ?e' B) = Some [ev] \<and>
            map_option PendingEvents (Engine.regions ?e' A) = Some []"
  proof (intro impI, elim conjE)
    assume ab: "A \<noteq> B"
      and e: "e = RegisterRegion t2 B (RegisterRegion t1 A (NewEngine cfg mm))"
      and a: "ChangeEvent.RegionID ev = A"
    have d: "dom (Engine.regions ?e') = dom (Engine.regions e)"
      by (auto simp: R dom_def split: option.splits if_splits)
    have "dom (Engine.regions e) = {A, B}"
      by (auto simp: e RegisterRegion_def NewEngine_def)
    with d have "dom (Engine.regions ?e') = {A, B}" by simp
    moreover have "map_option PendingEvents (Engine.regions ?e' B) = Some [ev]"
      using ab a by (simp only: R) (simp add: e RegisterRegion_def NewEngine_def)
    moreover have "map_option PendingEvents (Engine.regions ?e' A) = Some []"
      using ab a by (simp only: R) (simp add: e RegisterRegion_def NewEngine_def)
    ultimately show "dom (Engine.regions ?e') = {A, B} \<and>
            map_option PendingEvents (Engine.regions ?e' B) = Some [ev] \<and>
            map_option PendingEvents (Engine.regions ?e' A) = Some []"
      by blast
  qed
  from H 1 2 3 show ?thesis by blast
qed

text \<open>
  C5 at an eager engine with the regions A and B. A CREATE event from A on an empty
  store: \<^verbatim>\<open>Register\<close> succeeds, so the call succeeds, the file is stored, B has the one
  event pending and A has none. An UPDATE event from A of a stored file, with a clock
  after the stored one: \<^verbatim>\<open>Update\<close> succeeds, and the same holds.
\<close>

theorem HandleChange_eager_fanout_witness:
  "DefaultStrategy (Engine.config engineAB) = ''eager'' \<and>
   Register (metaManager engineAB) (ChangeEvent.Metadata createFromA)
     = (None, \<lparr> store = [''file-1'' \<mapsto> clockA2B1] \<rparr>) \<and>
   fst (HandleChange createFromA engineAB) = None \<and>
   metaManager (snd (HandleChange createFromA engineAB)) = \<lparr> store = [''file-1'' \<mapsto> clockA2B1] \<rparr> \<and>
   dom (Engine.regions (snd (HandleChange createFromA engineAB))) = {''A'', ''B''} \<and>
   map_option PendingEvents (Engine.regions (snd (HandleChange createFromA engineAB)) ''B'')
     = Some [createFromA] \<and>
   map_option PendingEvents (Engine.regions (snd (HandleChange createFromA engineAB)) ''A'')
     = Some [] \<and>
   Update (metaManager engineABFile1) (ChangeEvent.Metadata updateFromA)
     = (None, \<lparr> store = [''file-1'' \<mapsto> clockA2B2] \<rparr>) \<and>
   fst (HandleChange updateFromA engineABFile1) = None \<and>
   map_option PendingEvents (Engine.regions (snd (HandleChange updateFromA engineABFile1)) ''B'')
     = Some [updateFromA] \<and>
   map_option PendingEvents (Engine.regions (snd (HandleChange updateFromA engineABFile1)) ''A'')
     = Some []"
proof -
  have ab: "''A'' \<noteq> ''B''" by simp
  have g: "DefaultStrategy (Engine.config engineAB) = ''eager''"
    by (simp add: engineAB_def RegisterRegion_def NewEngine_def eagerConfig_def)
  have t: "ChangeEvent.Type createFromA = ''CREATE''"
    and a: "ChangeEvent.RegionID createFromA = ''A''"
    by (simp_all add: createFromA_def)
  have i: "FileMetadata.ID clockA2B1 = ''file-1''"
    by (simp add: clockA2B1_def zeroGlobalFileMetadata_def)
  have c: "Register (metaManager engineAB) (ChangeEvent.Metadata createFromA)
             = (None, \<lparr> store = [''file-1'' \<mapsto> clockA2B1] \<rparr>)"
    by (simp add: Register_def engineAB_def RegisterRegion_def NewEngine_def NewEtcdManager_def
        createFromA_def i)
  have e: "engineAB = RegisterRegion 1700000000000000002 ''B''
             (RegisterRegion 1700000000000000001 ''A'' (NewEngine eagerConfig NewEtcdManager))"
    by (simp add: engineAB_def)
  from c have p1: "ChangeEvent.Type createFromA = ''CREATE'' \<longrightarrow>
      Register (metaManager engineAB) (ChangeEvent.Metadata createFromA)
        = (None, \<lparr> store = [''file-1'' \<mapsto> clockA2B1] \<rparr>)"
    by blast
  from t have p2: "ChangeEvent.Type createFromA = ''UPDATE'' \<longrightarrow>
      Update (metaManager engineAB) (ChangeEvent.Metadata createFromA)
        = (None, \<lparr> store = [''file-1'' \<mapsto> clockA2B1] \<rparr>)"
    by simp
  from t have p3: "ChangeEvent.Type createFromA = ''DELETE'' \<longrightarrow>
      Delete (metaManager engineAB) (ChangeEvent.FileID createFromA)
        = (None, \<lparr> store = [''file-1'' \<mapsto> clockA2B1] \<rparr>)"
    by simp
  from t have p4: "ChangeEvent.Type createFromA \<noteq> ''CREATE'' \<and>
      ChangeEvent.Type createFromA \<noteq> ''UPDATE'' \<and> ChangeEvent.Type createFromA \<noteq> ''DELETE''
        \<longrightarrow> \<lparr> store = [''file-1'' \<mapsto> clockA2B1] \<rparr> = metaManager engineAB"
    by simp
  note C = HandleChange_eager_fanout [OF g p1 p2 p3 p4,
       where A = "''A''" and B = "''B''" and ?t2.0 = 1700000000000000002
       and ?t1.0 = 1700000000000000001 and cfg = eagerConfig and mm = NewEtcdManager]
  from C have 1: "HandleChange createFromA engineAB =
             (None, broadcastChange createFromA
                      (engineAB\<lparr> metaManager := \<lparr> store = [''file-1'' \<mapsto> clockA2B1] \<rparr> \<rparr>))"
    by blast
  from C ab a e
  have 2: "dom (Engine.regions (snd (HandleChange createFromA engineAB))) = {''A'', ''B''} \<and>
     map_option PendingEvents (Engine.regions (snd (HandleChange createFromA engineAB)) ''B'')
       = Some [createFromA] \<and>
     map_option PendingEvents (Engine.regions (snd (HandleChange createFromA engineAB)) ''A'')
       = Some []"
    by blast
  from 1 have 3: "fst (HandleChange createFromA engineAB) = None"
    and 4: "metaManager (snd (HandleChange createFromA engineAB))
              = \<lparr> store = [''file-1'' \<mapsto> clockA2B1] \<rparr>"
    by (simp_all add: broadcastChange_def)
  have g': "DefaultStrategy (Engine.config engineABFile1) = ''eager''"
    by (simp add: engineABFile1_def RegisterRegion_def NewEngine_def eagerConfig_def)
  have t': "ChangeEvent.Type updateFromA = ''UPDATE''"
    and a': "ChangeEvent.RegionID updateFromA = ''A''"
    by (simp_all add: updateFromA_def)
  have i': "FileMetadata.ID clockA2B2 = ''file-1''"
    by (simp add: clockA2B2_def zeroGlobalFileMetadata_def)
  have r: "CompareClock clockA2B1 (FileMetadata.VectorClock clockA2B2) = ClockBefore"
    by (simp add: CompareClock_def clockA2B1_def clockA2B2_def zeroGlobalFileMetadata_def
        clockAt_def)
  have u: "Update (metaManager engineABFile1) (ChangeEvent.Metadata updateFromA)
             = (None, \<lparr> store = [''file-1'' \<mapsto> clockA2B2] \<rparr>)"
    by (simp add: Update_def engineABFile1_def RegisterRegion_def NewEngine_def
        storeWithFile1_def updateFromA_def i' r)
  have e': "engineABFile1 = RegisterRegion 1700000000000000002 ''B''
             (RegisterRegion 1700000000000000001 ''A'' (NewEngine eagerConfig storeWithFile1))"
    by (simp add: engineABFile1_def)
  from t' have q1: "ChangeEvent.Type updateFromA = ''CREATE'' \<longrightarrow>
      Register (metaManager engineABFile1) (ChangeEvent.Metadata updateFromA)
        = (None, \<lparr> store = [''file-1'' \<mapsto> clockA2B2] \<rparr>)"
    by simp
  from u have q2: "ChangeEvent.Type updateFromA = ''UPDATE'' \<longrightarrow>
      Update (metaManager engineABFile1) (ChangeEvent.Metadata updateFromA)
        = (None, \<lparr> store = [''file-1'' \<mapsto> clockA2B2] \<rparr>)"
    by blast
  from t' have q3: "ChangeEvent.Type updateFromA = ''DELETE'' \<longrightarrow>
      Delete (metaManager engineABFile1) (ChangeEvent.FileID updateFromA)
        = (None, \<lparr> store = [''file-1'' \<mapsto> clockA2B2] \<rparr>)"
    by simp
  from t' have q4: "ChangeEvent.Type updateFromA \<noteq> ''CREATE'' \<and>
      ChangeEvent.Type updateFromA \<noteq> ''UPDATE'' \<and> ChangeEvent.Type updateFromA \<noteq> ''DELETE''
        \<longrightarrow> \<lparr> store = [''file-1'' \<mapsto> clockA2B2] \<rparr> = metaManager engineABFile1"
    by simp
  note U = HandleChange_eager_fanout [OF g' q1 q2 q3 q4,
       where A = "''A''" and B = "''B''" and ?t2.0 = 1700000000000000002
       and ?t1.0 = 1700000000000000001 and cfg = eagerConfig and mm = storeWithFile1]
  from U have 5: "fst (HandleChange updateFromA engineABFile1) = None"
    by simp
  from U ab a' e'
  have 6: "map_option PendingEvents (Engine.regions (snd (HandleChange updateFromA engineABFile1)) ''B'')
       = Some [updateFromA] \<and>
     map_option PendingEvents (Engine.regions (snd (HandleChange updateFromA engineABFile1)) ''A'')
       = Some []"
    by blast
  from g c 3 4 2 u 5 6 show ?thesis by blast
qed

text \<open>
  C6. For a registered region, \<^verbatim>\<open>GetPendingChanges\<close> returns exactly the region's
  pending list, and afterwards that list is empty and the region's last-sync time is the
  time of the call; every other region is as it was. A second call straight after the
  first returns the empty list.
\<close>

theorem GetPendingChanges_drains:
  assumes "Engine.regions e rid = Some st"
  shows "GetPendingChanges now rid e =
           (PendingEvents st,
            e\<lparr> Engine.regions := (Engine.regions e)(rid \<mapsto>
                 st\<lparr> PendingEvents := [], RegionState.LastSyncAt := now \<rparr>) \<rparr>) \<and>
         fst (GetPendingChanges now2 rid (snd (GetPendingChanges now rid e))) = [] \<and>
         (\<forall>other. other \<noteq> rid \<longrightarrow>
            Engine.regions (snd (GetPendingChanges now rid e)) other = Engine.regions e other)"
  using assms by (simp add: GetPendingChanges_def Let_def)

text \<open>
  C6 at an engine whose region B has one event pending: the first call returns that
  event, the second returns nothing.
\<close>

theorem GetPendingChanges_drains_witness:
  "map_option PendingEvents (Engine.regions engineBPending ''B'') = Some [createFromA] \<and>
   fst (GetPendingChanges 1700000000000000005 ''B'' engineBPending) = [createFromA] \<and>
   map_option RegionState.LastSyncAt
     (Engine.regions (snd (GetPendingChanges 1700000000000000005 ''B'' engineBPending)) ''B'')
     = Some 1700000000000000005 \<and>
   fst (GetPendingChanges 1700000000000000009 ''B''
          (snd (GetPendingChanges 1700000000000000005 ''B'' engineBPending))) = []"
proof -
  let ?st = "\<lparr> RegionState.RegionID = ''B'', LastEventID = [],
        LastSyncAt = 1700000000000000002, PendingEvents = [createFromA] \<rparr>"
  have r: "Engine.regions engineBPending ''B'' = Some ?st"
    by (simp add: engineBPending_def)
  note d = GetPendingChanges_drains [OF r, of 1700000000000000005 1700000000000000009]
  from d have a: "GetPendingChanges 1700000000000000005 ''B'' engineBPending =
      ([createFromA],
       engineBPending\<lparr> Engine.regions := (Engine.regions engineBPending)(''B'' \<mapsto>
          ?st\<lparr> PendingEvents := [], RegionState.LastSyncAt := 1700000000000000005 \<rparr>) \<rparr>)"
    by simp
  from d have b: "fst (GetPendingChanges 1700000000000000009 ''B''
          (snd (GetPendingChanges 1700000000000000005 ''B'' engineBPending))) = []"
    by blast
  from r have 1: "map_option PendingEvents (Engine.regions engineBPending ''B'') = Some [createFromA]"
    by simp
  from a have 2: "fst (GetPendingChanges 1700000000000000005 ''B'' engineBPending) = [createFromA]"
    by simp
  from a have 3: "map_option RegionState.LastSyncAt
     (Engine.regions (snd (GetPendingChanges 1700000000000000005 ''B'' engineBPending)) ''B'')
     = Some 1700000000000000005"
    by simp
  from 1 2 3 b show ?thesis by blast
qed

section \<open>The change queue\<close>

lemma Push_cases:
  "Push q ev = (if maxSize q \<le> int (length (items q)) then (Some ErrQueueFull, q)
                else (None, q\<lparr> items := items q @ [ev] \<rparr>))"
  by (simp add: Push_def)

text \<open>While there is room for all of them, every push of a run succeeds.\<close>

lemma PushAll_room:
  "int (length (items q) + length es) \<le> maxSize q \<Longrightarrow>
   PushAll q es = (replicate (length es) None, q\<lparr> items := items q @ es \<rparr>)"
proof (induction es arbitrary: q)
  case Nil
  then show ?case by simp
next
  case (Cons x xs)
  let ?q1 = "q\<lparr> items := items q @ [x] \<rparr>"
  from Cons.prems have p: "Push q x = (None, ?q1)"
    by (simp add: Push_cases)
  from Cons.prems have "int (length (items ?q1) + length xs) \<le> maxSize ?q1"
    by simp
  from Cons.IH [OF this] p show ?case by simp
qed

text \<open>
  C7. \<^verbatim>\<open>Push\<close> fails with the queue-full error exactly when the queue holds at least
  \<^verbatim>\<open>maxSize\<close> elements, and then the queue is unchanged; otherwise it succeeds and
  appends. On a new queue of capacity N, N pushes succeed and the next one fails; after
  one pop (of the oldest element) one more push succeeds, and the push after that fails.
\<close>

theorem ChangeQueue_Push_capacity:
  fixes q :: "'e ChangeQueue" and es :: "'e list"
  shows
  "(fst (Push q ev) = Some ErrQueueFull \<longleftrightarrow> maxSize q \<le> int (length (items q))) \<and>
   (fst (Push q ev) = None \<longleftrightarrow> int (length (items q)) < maxSize q) \<and>
   (maxSize q \<le> int (length (items q)) \<longrightarrow> Push q ev = (Some ErrQueueFull, q)) \<and>
   (int (length (items q)) < maxSize q \<longrightarrow>
      Push q ev = (None, q\<lparr> items := items q @ [ev] \<rparr>)) \<and>
   (qN = snd (PushAll (NewChangeQueue (int (length es))) es) \<longrightarrow>
      fst (PushAll (NewChangeQueue (int (length es))) es) = replicate (length es) None \<and>
      items qN = es \<and>
      Push qN x = (Some ErrQueueFull, qN) \<and>
      (es \<noteq> [] \<longrightarrow>
         fst (Pop qN) = Some (hd es) \<and>
         fst (Push (snd (Pop qN)) y) = None \<and>
         items (snd (Push (snd (Pop qN)) y)) = tl es @ [y] \<and>
         fst (Push (snd (Push (snd (Pop qN)) y)) z) = Some ErrQueueFull))"
proof -
  have A: "fst (Push q ev) = Some ErrQueueFull \<longleftrightarrow> maxSize q \<le> int (length (items q))"
    by (simp add: Push_cases)
  have B: "fst (Push q ev) = None \<longleftrightarrow> int (length (items q)) < maxSize q"
    by (auto simp add: Push_cases)
  have C: "maxSize q \<le> int (length (items q)) \<longrightarrow> Push q ev = (Some ErrQueueFull, q)"
    by (simp add: Push_cases)
  have D: "int (length (items q)) < maxSize q \<longrightarrow>
      Push q ev = (None, q\<lparr> items := items q @ [ev] \<rparr>)"
    by (simp add: Push_cases)
  have E: "qN = snd (PushAll (NewChangeQueue (int (length es))) es) \<longrightarrow>
      fst (PushAll (NewChangeQueue (int (length es))) es) = replicate (length es) None \<and>
      items qN = es \<and>
      Push qN x = (Some ErrQueueFull, qN) \<and>
      (es \<noteq> [] \<longrightarrow>
         fst (Pop qN) = Some (hd es) \<and>
         fst (Push (snd (Pop qN)) y) = None \<and>
         items (snd (Push (snd (Pop qN)) y)) = tl es @ [y] \<and>
         fst (Push (snd (Push (snd (Pop qN)) y)) z) = Some ErrQueueFull)"
  proof
    assume qN: "qN = snd (PushAll (NewChangeQueue (int (length es))) es)"
    let ?q0 = "NewChangeQueue (int (length es)) :: 'e ChangeQueue"
    have "int (length (items ?q0) + length es) \<le> maxSize ?q0"
      by (simp add: NewChangeQueue_def)
    from PushAll_room [OF this]
    have all: "PushAll ?q0 es = (replicate (length es) None, ?q0\<lparr> items := items ?q0 @ es \<rparr>)" .
    then have q: "qN = \<lparr> items = es, maxSize = int (length es) \<rparr>"
      by (simp add: qN NewChangeQueue_def)
    have 1: "fst (PushAll ?q0 es) = replicate (length es) None"
      by (simp add: all)
    have 2: "items qN = es"
      by (simp add: q)
    have 3: "Push qN x = (Some ErrQueueFull, qN)"
      by (simp add: q Push_cases)
    have 4: "es \<noteq> [] \<longrightarrow>
         fst (Pop qN) = Some (hd es) \<and>
         fst (Push (snd (Pop qN)) y) = None \<and>
         items (snd (Push (snd (Pop qN)) y)) = tl es @ [y] \<and>
         fst (Push (snd (Push (snd (Pop qN)) y)) z) = Some ErrQueueFull"
    proof
      assume ne: "es \<noteq> []"
      have pop: "Pop qN = (Some (hd es), \<lparr> items = tl es, maxSize = int (length es) \<rparr>)"
        using ne by (simp add: q Pop_def)
      have push: "Push \<lparr> items = tl es, maxSize = int (length es) \<rparr> y
                    = (None, \<lparr> items = tl es @ [y], maxSize = int (length es) \<rparr>)"
        using ne by (cases es) (simp_all add: Push_cases)
      have push2: "fst (Push \<lparr> items = tl es @ [y], maxSize = int (length es) \<rparr> z)
                    = Some ErrQueueFull"
        using ne by (cases es) (simp_all add: Push_cases)
      show "fst (Pop qN) = Some (hd es) \<and>
         fst (Push (snd (Pop qN)) y) = None \<and>
         items (snd (Push (snd (Pop qN)) y)) = tl es @ [y] \<and>
         fst (Push (snd (Push (snd (Pop qN)) y)) z) = Some ErrQueueFull"
        by (simp add: pop push push2)
    qed
    from 1 2 3 4
    show "fst (PushAll (NewChangeQueue (int (length es))) es) = replicate (length es) None \<and>
      items qN = es \<and>
      Push qN x = (Some ErrQueueFull, qN) \<and>
      (es \<noteq> [] \<longrightarrow>
         fst (Pop qN) = Some (hd es) \<and>
         fst (Push (snd (Pop qN)) y) = None \<and>
         items (snd (Push (snd (Pop qN)) y)) = tl es @ [y] \<and>
         fst (Push (snd (Push (snd (Pop qN)) y)) z) = Some ErrQueueFull)"
      by blast
  qed
  from A B C D E show ?thesis by blast
qed

text \<open>
  C7 at the queue of the repository's test, of capacity 2: the pushes of \<open>1\<close> and \<open>2\<close>
  succeed, the push of \<open>3\<close> fails and changes nothing; after a pop, which returns \<open>1\<close>,
  the push of \<open>3\<close> succeeds and the push of \<open>4\<close> fails.
\<close>

theorem ChangeQueue_Push_capacity_witness:
  "fst (PushAll (NewChangeQueue 2) [''1'', ''2'']) = [None, None] \<and>
   Push (snd (PushAll (NewChangeQueue 2) [''1'', ''2''])) ''3''
     = (Some ErrQueueFull, snd (PushAll (NewChangeQueue 2) [''1'', ''2''])) \<and>
   fst (Pop (snd (PushAll (NewChangeQueue 2) [''1'', ''2'']))) = Some ''1'' \<and>
   fst (Push (snd (Pop (snd (PushAll (NewChangeQueue 2) [''1'', ''2''])))) ''3'') = None \<and>
   fst (Push (snd (Push (snd (Pop (snd (PushAll (NewChangeQueue 2) [''1'', ''2''])))) ''3'')) ''4'')
     = Some ErrQueueFull"
proof -
  have l: "int (length [''1'', ''2'']) = 2" by simp
  have r: "replicate (length [''1'', ''2'']) (None :: error option) = [None, None]"
    by (simp add: numeral_2_eq_2)
  have n: "[''1'', ''2''] \<noteq> []" by simp
  have h: "hd [''1'', ''2''] = ''1''" by simp
  note t = ChangeQueue_Push_capacity
    [where es = "[''1'', ''2'']" and x = "''3''" and y = "''3''" and z = "''4''"
       and qN = "snd (PushAll (NewChangeQueue 2) [''1'', ''2''])", unfolded l r h]
  from t n show ?thesis by blast
qed

section \<open>The sync agent's error handler\<close>

text \<open>The three paths of \<^verbatim>\<open>handleSyncError\<close>.\<close>

lemma handleSyncError_retry_room:
  assumes "sint (Attempts ev + 1) < sint (MaxRetries (Agent.config a))"
      and "int (length (items (queue a))) < maxSize (queue a)"
  shows "handleSyncError a ev err =
           (ev\<lparr> Attempts := Attempts ev + 1 \<rparr>,
            a\<lparr> logger := logger a @ [LogEntry LogWarn ''sync failed'' (ChangeEvent_region.ID ev)],
               queue := (queue a)\<lparr> items := items (queue a) @ [ev\<lparr> Attempts := Attempts ev + 1 \<rparr>] \<rparr> \<rparr>)"
  using assms by (simp add: handleSyncError_def Let_def Push_def)

lemma handleSyncError_retry_full:
  assumes "sint (Attempts ev + 1) < sint (MaxRetries (Agent.config a))"
      and "maxSize (queue a) \<le> int (length (items (queue a)))"
  shows "handleSyncError a ev err =
           (ev\<lparr> Attempts := Attempts ev + 1 \<rparr>,
            a\<lparr> logger := logger a @ [LogEntry LogWarn ''sync failed'' (ChangeEvent_region.ID ev)] \<rparr>)"
  using assms by (simp add: handleSyncError_def Let_def Push_def)

lemma handleSyncError_drop:
  assumes "\<not> sint (Attempts ev + 1) < sint (MaxRetries (Agent.config a))"
  shows "handleSyncError a ev err =
           (ev\<lparr> Attempts := Attempts ev + 1 \<rparr>,
            a\<lparr> logger := logger a @
                 [LogEntry LogWarn ''sync failed'' (ChangeEvent_region.ID ev),
                  LogEntry LogError ''max retries exceeded, dropping event''
                    (ChangeEvent_region.ID ev)] \<rparr>)"
  using assms by (simp add: handleSyncError_def Let_def Push_def)

text \<open>
  C8 says that a failed event whose incremented \<^verbatim>\<open>Attempts\<close> is below
  \<^verbatim>\<open>MaxRetries\<close> is put back on the queue, and that a dropped event is reported. The
  code at an agent whose queue is full and an event on its first failure (three retries
  allowed): the counter becomes 1, the queue is what it was and does not hold the event,
  and the log has the warning of the failure and no report of a drop.
\<close>

theorem handleSyncError_full_queue_loses_event:
  "sint (Attempts failedEvent + 1) < sint (MaxRetries (Agent.config fullAgent)) \<and>
   fst (handleSyncError fullAgent failedEvent ErrSyncFailed) = failedEvent\<lparr> Attempts := 1 \<rparr> \<and>
   queue (snd (handleSyncError fullAgent failedEvent ErrSyncFailed)) = queue fullAgent \<and>
   failedEvent\<lparr> Attempts := 1 \<rparr>
     \<notin> set (items (queue (snd (handleSyncError fullAgent failedEvent ErrSyncFailed)))) \<and>
   logger (snd (handleSyncError fullAgent failedEvent ErrSyncFailed))
     = [LogEntry LogWarn ''sync failed'' ''event-1'']"
proof -
  have a: "sint (Attempts failedEvent + 1) < sint (MaxRetries (Agent.config fullAgent))"
    by (simp add: failedEvent_def fullAgent_def NewAgent_def retryConfig_def
        zeroChangeEvent_region_def)
  have f: "maxSize (queue fullAgent) \<le> int (length (items (queue fullAgent)))"
    by (simp add: fullAgent_def NewAgent_def NewChangeQueue_def)
  note h = handleSyncError_retry_full [OF a f, of ErrSyncFailed]
  have n: "failedEvent\<lparr> Attempts := 1 \<rparr> \<notin> set (items (queue fullAgent))"
    by (simp add: fullAgent_def NewAgent_def NewChangeQueue_def failedEvent_def
        zeroChangeEvent_region_def)
  show ?thesis using a n
    by (simp add: h)
      (simp add: failedEvent_def fullAgent_def NewAgent_def zeroChangeEvent_region_def)
qed

section \<open>The registry's health check\<close>

text \<open>Against a threshold that a \<^verbatim>\<open>Duration\<close> can hold, the saturation of \<^verbatim>\<open>Sub\<close> is invisible.\<close>

lemma Time_Sub_gt:
  "0 \<le> c \<Longrightarrow> c < maxDuration \<Longrightarrow> (Time_Sub t u > c \<longleftrightarrow> t - u > c)"
  by (auto simp: Time_Sub_def Let_def minDuration_def maxDuration_def)

text \<open>
  C9. One run of the health check, at time \<open>now\<close>, changes nothing of a registered region
  but its state, and the state becomes: offline if \<open>now - LastSeenAt\<close> is more than
  5 minutes (300 s), whatever it was; otherwise degraded if \<open>now - LastSeenAt\<close> is more
  than 60 s and the state was healthy; otherwise what it was.
\<close>

theorem checkHealth_transition:
  assumes "Registry.regions r rid = Some region"
  shows "Registry.regions (checkHealth now r) rid =
           Some (region\<lparr> Status := (Status region)\<lparr> RegionStatus.State :=
             (if now - LastSeenAt region > 300 * Second then ''offline''
              else if now - LastSeenAt region > 60 * Second
                      \<and> RegionStatus.State (Status region) = ''healthy'' then ''degraded''
              else RegionStatus.State (Status region)) \<rparr> \<rparr>)"
proof -
  have o: "Time_Sub now (LastSeenAt region) > 5 * Minute
             \<longleftrightarrow> now - LastSeenAt region > 300 * Second"
    using Time_Sub_gt [of "5 * Minute" now "LastSeenAt region"]
    by (simp add: Minute_def Second_def maxDuration_def)
  have d: "Time_Sub now (LastSeenAt region) > 1 * Minute
             \<longleftrightarrow> now - LastSeenAt region > 60 * Second"
    using Time_Sub_gt [of "1 * Minute" now "LastSeenAt region"]
    by (simp add: Minute_def Second_def maxDuration_def)
  have "checkHealthRegion now region =
          region\<lparr> Status := (Status region)\<lparr> RegionStatus.State :=
             (if now - LastSeenAt region > 300 * Second then ''offline''
              else if now - LastSeenAt region > 60 * Second
                      \<and> RegionStatus.State (Status region) = ''healthy'' then ''degraded''
              else RegionStatus.State (Status region)) \<rparr> \<rparr>"
    unfolding checkHealthRegion_def Let_def o d by simp
  with assms show ?thesis by (simp add: checkHealth_def)
qed

text \<open>
  C9 at a healthy region: checked 30 s after it was last seen it stays healthy, checked
  90 s after it is degraded, checked 301 s after it is offline.
\<close>

theorem checkHealth_transition_witness:
  "Registry.regions registryA ''region-a'' = Some healthyRegion \<and>
   map_option (\<lambda>x. RegionStatus.State (Status x))
     (Registry.regions (checkHealth (1700000000000000000 + 30 * Second) registryA) ''region-a'')
     = Some ''healthy'' \<and>
   map_option (\<lambda>x. RegionStatus.State (Status x))
     (Registry.regions (checkHealth (1700000000000000000 + 90 * Second) registryA) ''region-a'')
     = Some ''degraded'' \<and>
   map_option (\<lambda>x. RegionStatus.State (Status x))
     (Registry.regions (checkHealth (1700000000000000000 + 301 * Second) registryA) ''region-a'')
     = Some ''offline''"
proof -
  have r: "Registry.regions registryA ''region-a'' = Some healthyRegion"
    by (simp add: registryA_def)
  have l: "LastSeenAt healthyRegion = 1700000000000000000"
    and s: "RegionStatus.State (Status healthyRegion) = ''healthy''"
    by (simp_all add: healthyRegion_def zeroRegionInfo_def)
  from r l s
    checkHealth_transition [OF r, of "1700000000000000000 + 30 * Second"]
    checkHealth_transition [OF r, of "1700000000000000000 + 90 * Second"]
    checkHealth_transition [OF r, of "1700000000000000000 + 301 * Second"]
  show ?thesis by (simp add: Second_def)
qed

end
